theory Spec2Isabelle
  imports Main "HOL-Library.Log_Nat"
begin

section \<open>Python values\<close>

text \<open>
  A Python \<open>float\<close> is an IEEE binary64 number: a sign and a magnitude when it is finite
  (so that \<open>-0.0\<close> and \<open>0.0\<close> are told apart), a signed infinity, or NaN. The sign is
  \<open>True\<close> for a negative number. The magnitude is a rational; the arithmetic below
  rounds every result to the nearest binary64 value.
\<close>

datatype pyfloat = Finite bool rat | Infinity bool | NaN

text \<open>Python's \<open>int\<close> is unbounded; a number is an \<open>int\<close> or a \<open>float\<close>.\<close>

datatype pynum = PInt int | PFloat pyfloat

text \<open>
  What \<open>json.loads\<close> returns. A \<open>dict\<close> keeps its insertion order, so it is an
  association list (a Python \<open>dict\<close> has no repeated key; nothing below depends on it).
\<close>

datatype json =
    JNull
  | JBool bool
  | JInt int
  | JFloat pyfloat
  | JStr string
  | JArr "json list"
  | JObj "(string \<times> json) list"

text \<open>
  Exceptions are values. Every class listed is a subclass of \<open>Exception\<close>;
  \<open>JSONDecodeError\<close> is a subclass of \<open>ValueError\<close>, and \<open>ValueError\<close> stands for it
  and its other subclasses (such as \<open>UnicodeDecodeError\<close>). \<open>SystemExit\<close> is not an
  \<open>Exception\<close> and is modelled apart, by \<open>Exited\<close> below.
\<close>

datatype exc_class =
    TypeError
  | JSONDecodeError
  | ValueError
  | AttributeError
  | OverflowError
  | KeyError
  | SSHException

datatype py_exc = Exc (exc_cls: exc_class) (exc_msg: string)

datatype 'a outcome = Returned 'a | Raised py_exc | Exited int


section \<open>Binary64 arithmetic\<close>

text \<open>Rounding a rational to the nearest integer, ties to even.\<close>

definition round_he :: "rat \<Rightarrow> int" where
  "round_he x =
     (let f = \<lfloor>x\<rfloor>; r = x - of_int f
      in if r < 1 / 2 then f
         else if 1 / 2 < r then f + 1
         else if even f then f
         else f + 1)"

text \<open>
  The binary exponent of a positive rational \<open>q\<close>: the \<open>e\<close> with \<open>2^e \<le> q < 2^(e+1)\<close>,
  but never below the exponent of the subnormal numbers, \<open>-1022\<close>.
\<close>

definition expo :: "rat \<Rightarrow> int" where
  "expo q =
     (let (a, b) = quotient_of q;
          d = bitlen a - bitlen b;
          e = (if 2 powi d \<le> q then d else d - 1)
      in max e (- 1022))"

text \<open>
  The magnitude \<open>q \<ge> 0\<close> rounded to 53 significant bits, ties to even. The result may be
  \<open>2^1024\<close>, which is beyond the largest binary64 number: the callers test for it.
\<close>

definition fl_mag :: "rat \<Rightarrow> rat" where
  "fl_mag q =
     (if q = 0 then 0
      else of_int (round_he (q / 2 powi (expo q - 52))) * 2 powi (expo q - 52))"

text \<open>
  \<open>val / 1000\<close>. Dividing an \<open>int\<close> gives the correctly rounded quotient and raises
  OverflowError when that is too large for a float; dividing a \<open>float\<close> follows IEEE 754
  (an overflow would be an infinity, NaN and the infinities propagate) and never raises.
\<close>

fun truediv_1000 :: "pynum \<Rightarrow> py_exc + pyfloat" where
  "truediv_1000 (PInt i) =
     (let m = fl_mag (\<bar>of_int i\<bar> / 1000)
      in if 2 powi 1024 \<le> m
         then Inl (Exc OverflowError ''integer division result too large for a float'')
         else Inr (Finite (i < 0) m))"
| "truediv_1000 (PFloat (Finite s m)) =
     (let r = fl_mag (m / 1000)
      in if 2 powi 1024 \<le> r then Inr (Infinity s) else Inr (Finite s r))"
| "truediv_1000 (PFloat (Infinity s)) = Inr (Infinity s)"
| "truediv_1000 (PFloat NaN) = Inr NaN"

text \<open>
  \<open>round(x, 1)\<close>: NaN and the infinities round to themselves; a finite \<open>x\<close> is rounded to
  one decimal (ties to even, on the exact value of \<open>x\<close>), the decimal is read back as
  a float, and OverflowError is raised when that is out of range.
\<close>

fun py_round1 :: "pyfloat \<Rightarrow> py_exc + pyfloat" where
  "py_round1 (Finite s m) =
     (let r = fl_mag (of_int (round_he (m * 10)) / 10)
      in if 2 powi 1024 \<le> r
         then Inl (Exc OverflowError ''rounded value too large to represent'')
         else Inr (Finite s r))"
| "py_round1 (Infinity s) = Inr (Infinity s)"
| "py_round1 NaN = Inr NaN"

text \<open>\<open>round(val / 1000, 1)\<close>.\<close>

definition convert :: "pynum \<Rightarrow> py_exc + pyfloat" where
  "convert n = (case truediv_1000 n of Inl e \<Rightarrow> Inl e | Inr q \<Rightarrow> py_round1 q)"

text \<open>
  Comparison. Python compares an \<open>int\<close> with a \<open>float\<close> by their exact values; NaN is
  unordered, so every comparison with it is false. A number that is not NaN has a key,
  \<open>(-1, 0)\<close> for \<open>-inf\<close>, \<open>(0, q)\<close> for the finite value \<open>q\<close> and \<open>(1, 0)\<close> for \<open>inf\<close>,
  and the keys are compared lexicographically.
\<close>

fun float_key :: "pyfloat \<Rightarrow> (int \<times> rat) option" where
  "float_key (Finite s m) = Some (0, if s then - m else m)"
| "float_key (Infinity s) = Some (if s then - 1 else 1, 0)"
| "float_key NaN = None"

fun num_key :: "pynum \<Rightarrow> (int \<times> rat) option" where
  "num_key (PInt i) = Some (0, of_int i)"
| "num_key (PFloat x) = float_key x"

definition py_le :: "pynum \<Rightarrow> pynum \<Rightarrow> bool" where
  "py_le a b =
     (case (num_key a, num_key b) of
        (Some (k, x), Some (l, y)) \<Rightarrow> k < l \<or> (k = l \<and> x \<le> y)
      | _ \<Rightarrow> False)"

definition py_lt :: "pynum \<Rightarrow> pynum \<Rightarrow> bool" where
  "py_lt a b =
     (case (num_key a, num_key b) of
        (Some (k, x), Some (l, y)) \<Rightarrow> k < l \<or> (k = l \<and> x < y)
      | _ \<Rightarrow> False)"

definition is_nan :: "pynum \<Rightarrow> bool" where
  "is_nan a = (num_key a = None)"


section \<open>Strings\<close>

definition endswith :: "string \<Rightarrow> string \<Rightarrow> bool" where
  "endswith s suffix =
     (length suffix \<le> length s \<and> drop (length s - length suffix) s = suffix)"

definition startswith :: "string \<Rightarrow> string \<Rightarrow> bool" where
  "startswith s prefix = (take (length prefix) s = prefix)"

text \<open>\<open>str\<close> of an \<open>int\<close>: its decimal digits.\<close>

definition digit :: "nat \<Rightarrow> char" where
  "digit d = ''0123456789'' ! (d mod 10)"

fun str_nat :: "nat \<Rightarrow> string" where
  "str_nat n = (if n < 10 then [digit n] else str_nat (n div 10) @ [digit (n mod 10)])"

declare str_nat.simps [simp del]

definition str_int :: "int \<Rightarrow> string" where
  "str_int i = (if i < 0 then ''-'' @ str_nat (nat (- i)) else str_nat (nat i))"

text \<open>
  \<open>str\<close> of a number. The text Python prints for a \<open>float\<close> (its shortest decimal that
  reads back as the same float) is taken as a parameter, \<open>repr\<close>.
\<close>

fun str_num :: "(pyfloat \<Rightarrow> string) \<Rightarrow> pynum \<Rightarrow> string" where
  "str_num repr (PInt i) = str_int i"
| "str_num repr (PFloat x) = repr x"

fun join :: "string \<Rightarrow> string list \<Rightarrow> string" where
  "join sep [] = []"
| "join sep [x] = x"
| "join sep (x # y # ys) = x @ sep @ join sep (y # ys)"

text \<open>\<open>str\<close> of a list of floats.\<close>

definition str_list :: "(pyfloat \<Rightarrow> string) \<Rightarrow> pyfloat list \<Rightarrow> string" where
  "str_list repr xs = ''['' @ join '', '' (map repr xs) @ '']''"


section \<open>\<open>flatten_sensors\<close>\<close>

text \<open>The dict \<open>{"temp": [...], "hum": [...]}\<close>, its two keys being fixed.\<close>

record readings =
  temp :: "pyfloat list"
  hum :: "pyfloat list"

text \<open>\<open>values.items()\<close>: the keys in insertion order.\<close>

definition items :: "readings \<Rightarrow> (string \<times> pyfloat list) list" where
  "items vals = [(''temp'', temp vals), (''hum'', hum vals)]"

text \<open>\<open>isinstance(val, (int, float))\<close>; \<open>bool\<close> is a subclass of \<open>int\<close>.\<close>

fun as_number :: "json \<Rightarrow> pynum option" where
  "as_number (JBool b) = Some (PInt (if b then 1 else 0))"
| "as_number (JInt i) = Some (PInt i)"
| "as_number (JFloat x) = Some (PFloat x)"
| "as_number _ = None"

fun type_name :: "json \<Rightarrow> string" where
  "type_name JNull = ''NoneType''"
| "type_name (JBool _) = ''bool''"
| "type_name (JInt _) = ''int''"
| "type_name (JFloat _) = ''float''"
| "type_name (JStr _) = ''str''"
| "type_name (JArr _) = ''list''"
| "type_name (JObj _) = ''dict''"

definition no_attribute :: "json \<Rightarrow> string \<Rightarrow> py_exc" where
  "no_attribute v attr =
     Exc AttributeError
       ([CHR 0x27] @ type_name v @ [CHR 0x27] @ '' object has no attribute ''
          @ [CHR 0x27] @ attr @ [CHR 0x27])"

definition skip_warning :: "string \<Rightarrow> string" where
  "skip_warning label = ''Warning: sensor value '' @ label @ '' is not numeric, skipping''"

text \<open>
  The body of the inner loop, on one \<open>(label, val)\<close>. The state is the lines printed so
  far and the dict \<open>flat\<close>; the result is the lines printed and either the exception
  raised or the updated \<open>flat\<close>.
\<close>

definition flatten_field ::
  "string list \<times> readings \<Rightarrow> string \<times> json \<Rightarrow> string list \<times> (py_exc + readings)" where
  "flatten_field st lv =
     (case st of (out, flat) \<Rightarrow>
      case lv of (label, val) \<Rightarrow>
        (case as_number val of
           None \<Rightarrow> (out @ [skip_warning label], Inr flat)
         | Some n \<Rightarrow>
             if \<not> endswith label ''_input'' then (out, Inr flat)
             else (case convert n of
                     Inl e \<Rightarrow> (out, Inl e)
                   | Inr v \<Rightarrow>
                       if startswith label ''temp''
                       then (out, Inr (flat\<lparr>temp := temp flat @ [v]\<rparr>))
                       else if startswith label ''humidity''
                       then (out, Inr (flat\<lparr>hum := hum flat @ [v]\<rparr>))
                       else (out, Inr flat))))"

text \<open>\<open>for label, val in chip.items()\<close>.\<close>

fun flatten_chip ::
  "string list \<times> readings \<Rightarrow> (string \<times> json) list \<Rightarrow> string list \<times> (py_exc + readings)" where
  "flatten_chip (out, flat) [] = (out, Inr flat)"
| "flatten_chip (out, flat) (lv # rest) =
     (case flatten_field (out, flat) lv of
        (out', Inl e) \<Rightarrow> (out', Inl e)
      | (out', Inr flat') \<Rightarrow> flatten_chip (out', flat') rest)"

text \<open>\<open>for chip in data.values()\<close>; a chip that is not a dict has no \<open>items\<close>.\<close>

fun flatten_chips ::
  "string list \<times> readings \<Rightarrow> json list \<Rightarrow> string list \<times> (py_exc + readings)" where
  "flatten_chips (out, flat) [] = (out, Inr flat)"
| "flatten_chips (out, flat) (JObj chip # rest) =
     (case flatten_chip (out, flat) chip of
        (out', Inl e) \<Rightarrow> (out', Inl e)
      | (out', Inr flat') \<Rightarrow> flatten_chips (out', flat') rest)"
| "flatten_chips (out, flat) (chip # rest) = (out, Inl (no_attribute chip ''items''))"

fun flatten_sensors :: "json \<Rightarrow> string list \<times> (py_exc + readings)" where
  "flatten_sensors (JObj chips) =
     flatten_chips ([], \<lparr>temp = [], hum = []\<rparr>) (map snd chips)"
| "flatten_sensors data = ([], Inl (no_attribute data ''values''))"


section \<open>\<open>validate\<close>\<close>

definition issue ::
  "(pyfloat \<Rightarrow> string) \<Rightarrow> string \<Rightarrow> nat \<Rightarrow> pyfloat \<Rightarrow> pynum \<Rightarrow> pynum \<Rightarrow> string" where
  "issue repr kind i v lo hi =
     kind @ str_nat i @ '': '' @ repr v @ '' out of '' @ str_num repr lo @ ''..''
       @ str_num repr hi"

text \<open>\<open>lo <= v <= hi\<close>.\<close>

definition in_range :: "pynum \<Rightarrow> pynum \<Rightarrow> pyfloat \<Rightarrow> bool" where
  "in_range lo hi v = (py_le lo (PFloat v) \<and> py_le (PFloat v) hi)"

text \<open>\<open>for i, v in enumerate(lst, start=1)\<close>, from the index \<open>i\<close> on.\<close>

fun validate_list ::
  "(pyfloat \<Rightarrow> string) \<Rightarrow> string \<Rightarrow> pynum \<Rightarrow> pynum \<Rightarrow> nat \<Rightarrow> pyfloat list \<Rightarrow> string list
     \<Rightarrow> string list" where
  "validate_list repr kind lo hi i [] issues = issues"
| "validate_list repr kind lo hi i (v # vs) issues =
     validate_list repr kind lo hi (Suc i) vs
       (if \<not> in_range lo hi v then issues @ [issue repr kind i v lo hi] else issues)"

text \<open>\<open>for kind, lst in values.items()\<close>; \<open>ranges[kind]\<close> raises KeyError on a missing key.\<close>

fun validate_items ::
  "(pyfloat \<Rightarrow> string) \<Rightarrow> (string \<times> pyfloat list) list \<Rightarrow> (string \<rightharpoonup> pynum \<times> pynum)
     \<Rightarrow> string list \<Rightarrow> py_exc + string list" where
  "validate_items repr [] ranges issues = Inr issues"
| "validate_items repr ((kind, lst) # rest) ranges issues =
     (case ranges kind of
        None \<Rightarrow> Inl (Exc KeyError ([CHR 0x27] @ kind @ [CHR 0x27]))
      | Some (lo, hi) \<Rightarrow>
          validate_items repr rest ranges (validate_list repr kind lo hi 1 lst issues))"

definition validate ::
  "(pyfloat \<Rightarrow> string) \<Rightarrow> (string \<times> pyfloat list) list \<Rightarrow> (string \<rightharpoonup> pynum \<times> pynum)
     \<Rightarrow> py_exc + string list" where
  "validate repr vals ranges = validate_items repr vals ranges []"


section \<open>\<open>ssh_run\<close>\<close>

text \<open>
  What the SSH library does during one call of \<open>ssh_run\<close>: each operation succeeds or
  raises an exception. \<open>read_stderr\<close> and \<open>read_stdout\<close> are \<open>stderr.read().decode()\<close>
  and \<open>stdout.read().decode()\<close>.
\<close>

record ssh_env =
  new_client :: "py_exc option"
  set_policy :: "py_exc option"
  connect :: "py_exc option"
  exec_command :: "py_exc option"
  read_stderr :: "py_exc + string"
  read_stdout :: "py_exc + string"
  close :: "py_exc option"

datatype credential = Password "string option" | KeyFile string

text \<open>The operations invoked on the connection and on its streams.\<close>

datatype ssh_event =
    SetPolicy
  | Connect string string credential int
  | ExecCommand string
  | ReadStderr
  | ReadStdout
  | Close

record ssh_result =
  calls :: "ssh_event list"
  err_lines :: "string list"
  result :: "py_exc + string"

text \<open>\<open>if key: ... else: ...\<close>: a key that is \<open>None\<close> or empty is false.\<close>

definition connect_event ::
  "string \<Rightarrow> string \<Rightarrow> string option \<Rightarrow> string option \<Rightarrow> int \<Rightarrow> ssh_event" where
  "connect_event host user password key port =
     (case key of
        None \<Rightarrow> Connect host user (Password password) port
      | Some k \<Rightarrow>
          if k \<noteq> [] then Connect host user (KeyFile k) port
          else Connect host user (Password password) port)"

text \<open>
  The \<open>try\<close> block once \<open>conn\<close> is bound: the operations invoked, the lines printed on
  the error stream, and the text returned or the exception raised.
\<close>

definition ssh_try ::
  "ssh_env \<Rightarrow> string \<Rightarrow> string \<Rightarrow> string option \<Rightarrow> string option \<Rightarrow> string \<Rightarrow> int
     \<Rightarrow> ssh_event list \<times> string list \<times> (py_exc + string)" where
  "ssh_try env host user password key cmd port =
     (let c = connect_event host user password key port
      in case set_policy env of
           Some e \<Rightarrow> ([SetPolicy], [], Inl e)
         | None \<Rightarrow>
        (case connect env of
           Some e \<Rightarrow> ([SetPolicy, c], [], Inl e)
         | None \<Rightarrow>
        (case exec_command env of
           Some e \<Rightarrow> ([SetPolicy, c, ExecCommand cmd], [], Inl e)
         | None \<Rightarrow>
        (case read_stderr env of
           Inl e \<Rightarrow> ([SetPolicy, c, ExecCommand cmd, ReadStderr], [], Inl e)
         | Inr err \<Rightarrow>
        (let warn = (if err \<noteq> [] then [''SSH command error: '' @ err] else [])
         in case read_stdout env of
              Inl e \<Rightarrow> ([SetPolicy, c, ExecCommand cmd, ReadStderr, ReadStdout], warn, Inl e)
            | Inr text \<Rightarrow>
                ([SetPolicy, c, ExecCommand cmd, ReadStderr, ReadStdout], warn, Inr text))))))"

text \<open>
  \<open>ssh_run\<close>: the \<open>except\<close> clause prints and re-raises; the \<open>finally\<close> clause closes
  the connection when \<open>conn\<close> is bound, and only prints when closing fails.
\<close>

definition ssh_run ::
  "ssh_env \<Rightarrow> string \<Rightarrow> string \<Rightarrow> string option \<Rightarrow> string option \<Rightarrow> string \<Rightarrow> int
     \<Rightarrow> ssh_result" where
  "ssh_run env host user password key cmd port =
     (case new_client env of
        Some e \<Rightarrow>
          \<lparr>calls = [], err_lines = [''SSH operation failed: '' @ exc_msg e], result = Inl e\<rparr>
      | None \<Rightarrow>
          (case ssh_try env host user password key cmd port of
             (cs, errs, r) \<Rightarrow>
               (let errs1 = (case r of
                               Inl e \<Rightarrow> errs @ [''SSH operation failed: '' @ exc_msg e]
                             | Inr text \<Rightarrow> errs);
                    errs2 = (case close env of
                               Some e \<Rightarrow>
                                 errs1 @ [''Warning: Failed to close SSH connection: ''
                                            @ exc_msg e]
                             | None \<Rightarrow> errs1)
                in \<lparr>calls = cs @ [Close], err_lines = errs2, result = r\<rparr>)))"


section \<open>\<open>get_sensors_json\<close>\<close>

text \<open>
  \<open>json.loads\<close> is a parameter, \<open>loads\<close>: the value it returns or the exception it
  raises. The three handlers are tried in the order of the source; \<open>sys.exit(3)\<close> is
  \<open>Exited 3\<close>, and an exception of another class propagates.
\<close>

record fetched =
  fetch_calls :: "ssh_event list"
  fetch_out :: "string list"
  fetch_err :: "string list"
  fetch_outcome :: "json outcome"

definition get_sensors_json ::
  "(string \<Rightarrow> py_exc + json) \<Rightarrow> ssh_env \<Rightarrow> string \<Rightarrow> string \<Rightarrow> string option \<Rightarrow> string option
     \<Rightarrow> int \<Rightarrow> fetched" where
  "get_sensors_json loads env host user password key port =
     (let r = ssh_run env host user password key ''sensors -j'' port;
          parsed = (case result r of Inl e \<Rightarrow> Inl e | Inr raw \<Rightarrow> loads raw)
      in case parsed of
           Inr data \<Rightarrow>
             \<lparr>fetch_calls = calls r, fetch_out = [], fetch_err = err_lines r,
              fetch_outcome = Returned data\<rparr>
         | Inl e \<Rightarrow>
             if exc_cls e = TypeError then
               \<lparr>fetch_calls = calls r,
                fetch_out = [''Error - non-deserializable data received: '' @ exc_msg e],
                fetch_err = err_lines r, fetch_outcome = Exited 3\<rparr>
             else if exc_cls e = JSONDecodeError then
               \<lparr>fetch_calls = calls r,
                fetch_out = [''Error parsing sensors JSON: '' @ exc_msg e],
                fetch_err = err_lines r, fetch_outcome = Exited 3\<rparr>
             else if exc_cls e = ValueError then
               \<lparr>fetch_calls = calls r,
                fetch_out = [''Unexpected error: '' @ exc_msg e],
                fetch_err = err_lines r, fetch_outcome = Exited 3\<rparr>
             else
               \<lparr>fetch_calls = calls r, fetch_out = [], fetch_err = err_lines r,
                fetch_outcome = Raised e\<rparr>)"


section \<open>\<open>main\<close>\<close>

record args =
  host :: string
  user :: string
  password :: "string option"
  key :: "string option"
  port :: int
  expected_sensors :: int
  temp_range :: "pynum \<times> pynum"
  hum_range :: "pynum \<times> pynum"
  raw_json_output :: bool

text \<open>What a run leaves behind: the lines on both streams and the exit status.\<close>

record run =
  stdout :: "string list"
  stderr :: "string list"
  exit_code :: int

text \<open>
  \<open>json.dumps\<close> of the readings: a float is written by \<open>repr\<close>, except NaN and the
  infinities, which have names of their own.
\<close>

fun json_float :: "(pyfloat \<Rightarrow> string) \<Rightarrow> pyfloat \<Rightarrow> string" where
  "json_float repr NaN = ''NaN''"
| "json_float repr (Infinity s) = (if s then ''-Infinity'' else ''Infinity'')"
| "json_float repr (Finite s m) = repr (Finite s m)"

definition json_dumps :: "(pyfloat \<Rightarrow> string) \<Rightarrow> readings \<Rightarrow> string" where
  "json_dumps repr vals =
     ''{'' @ [CHR 0x22] @ ''temp'' @ [CHR 0x22] @ '': [''
       @ join '', '' (map (json_float repr) (temp vals))
       @ ''], '' @ [CHR 0x22] @ ''hum'' @ [CHR 0x22] @ '': [''
       @ join '', '' (map (json_float repr) (hum vals)) @ '']}''"

definition failed_line :: "py_exc \<Rightarrow> string" where
  "failed_line e = ''Failed to get sensor data: '' @ exc_msg e"

definition summary_lines :: "(pyfloat \<Rightarrow> string) \<Rightarrow> readings \<Rightarrow> string list" where
  "summary_lines repr vals =
     [''Found '' @ str_nat (length (temp vals)) @ '' temp sensors and ''
        @ str_nat (length (hum vals)) @ '' humidity sensors (total ''
        @ str_nat (length (temp vals) + length (hum vals)) @ '')'',
      ''Temperature values: '' @ str_list repr (temp vals),
      ''Humidity values:    '' @ str_list repr (hum vals)]"

definition missing_line :: "int \<Rightarrow> nat \<Rightarrow> string" where
  "missing_line expected found =
     ''Missing sensors: expected '' @ str_int expected @ '', found '' @ str_nat found"

text \<open>The dict \<open>{"temp": tuple(args.temp_range), "hum": tuple(args.hum_range)}\<close>.\<close>

definition ranges_of :: "pynum \<times> pynum \<Rightarrow> pynum \<times> pynum \<Rightarrow> (string \<rightharpoonup> pynum \<times> pynum)" where
  "ranges_of t h = [''temp'' \<mapsto> t, ''hum'' \<mapsto> h]"

text \<open>
  \<open>main\<close> after the arguments are parsed. \<open>sys.exit\<close> raises \<open>SystemExit\<close>, which the
  clause \<open>except Exception\<close> does not catch; every other exception raised inside the
  \<open>try\<close> block ends the run with status 1.
\<close>

definition main ::
  "(string \<Rightarrow> py_exc + json) \<Rightarrow> (pyfloat \<Rightarrow> string) \<Rightarrow> args \<Rightarrow> ssh_env \<Rightarrow> run" where
  "main loads repr a env =
     (let ranges = ranges_of (temp_range a) (hum_range a);
          f = get_sensors_json loads env (host a) (user a) (password a) (key a) (port a)
      in case fetch_outcome f of
           Exited n \<Rightarrow> \<lparr>stdout = fetch_out f, stderr = fetch_err f, exit_code = n\<rparr>
         | Raised e \<Rightarrow>
             \<lparr>stdout = fetch_out f, stderr = fetch_err f @ [failed_line e], exit_code = 1\<rparr>
         | Returned data \<Rightarrow>
             (case flatten_sensors data of
                (w, Inl e) \<Rightarrow>
                  \<lparr>stdout = fetch_out f @ w, stderr = fetch_err f @ [failed_line e],
                   exit_code = 1\<rparr>
              | (w, Inr vals) \<Rightarrow>
                  if raw_json_output a then
                    \<lparr>stdout = fetch_out f @ w @ [json_dumps repr vals], stderr = fetch_err f,
                     exit_code = 0\<rparr>
                  else
                    (let n = length (temp vals) + length (hum vals);
                         out = fetch_out f @ w @ summary_lines repr vals
                     in if int n < expected_sensors a then
                          \<lparr>stdout = out @ [missing_line (expected_sensors a) n],
                           stderr = fetch_err f, exit_code = 1\<rparr>
                        else
                          (case validate repr (items vals) ranges of
                             Inl e \<Rightarrow>
                               \<lparr>stdout = out, stderr = fetch_err f @ [failed_line e],
                                exit_code = 1\<rparr>
                           | Inr issues \<Rightarrow>
                               if issues \<noteq> [] then
                                 \<lparr>stdout = out @ ''ISSUES:'' # map (\<lambda>i. ''- '' @ i) issues,
                                  stderr = fetch_err f, exit_code = 2\<rparr>
                               else
                                 \<lparr>stdout = out @ [''All sensors within range, exiting 0''],
                                  stderr = fetch_err f, exit_code = 0\<rparr>))))"


section \<open>Notions of the specification\<close>

text \<open>\<open>enumerate(lst, start=i)\<close> as a list of pairs.\<close>

definition enumerate1 :: "nat \<Rightarrow> 'a list \<Rightarrow> (nat \<times> 'a) list" where
  "enumerate1 i vs = zip [i..<i + length vs] vs"

text \<open>
  The issues of one kind: one string for each value, at its position counted as
  \<open>enumerate\<close> does, for which \<open>lo <= v <= hi\<close> does not hold.
\<close>

definition issues_of ::
  "(pyfloat \<Rightarrow> string) \<Rightarrow> string \<Rightarrow> pynum \<Rightarrow> pynum \<Rightarrow> nat \<Rightarrow> pyfloat list \<Rightarrow> string list" where
  "issues_of repr kind lo hi i vs =
     map (\<lambda>(i, v). issue repr kind i v lo hi)
       (filter (\<lambda>(i, v). \<not> in_range lo hi v) (enumerate1 i vs))"

text \<open>One issue for every value of the sequence.\<close>

definition every_issue ::
  "(pyfloat \<Rightarrow> string) \<Rightarrow> string \<Rightarrow> pynum \<Rightarrow> pynum \<Rightarrow> pyfloat list \<Rightarrow> string list" where
  "every_issue repr kind lo hi vs = map (\<lambda>(i, v). issue repr kind i v lo hi) (enumerate1 1 vs)"

text \<open>
  The examples need the text of a few floats: \<open>repr_table\<close> is Python's \<open>repr\<close> at
  the floats they use, and is not meant anywhere else.
\<close>

definition repr_table :: "pyfloat \<Rightarrow> string" where
  "repr_table x =
     (if x = NaN then ''nan''
      else if x = Finite False 0 then ''0.0''
      else if x = Finite False 25 then ''25.0''
      else if x = Finite False 26 then ''26.0''
      else if x = Finite False 45 then ''45.0''
      else if x = Finite True 30 then ''-30.0''
      else if x = Finite False 150 then ''150.0''
      else if x = Finite False 80 then ''80.0''
      else if x = Finite True 20 then ''-20.0''
      else if x = Finite False 100 then ''100.0''
      else ''?'')"


section \<open>Properties of \<open>validate\<close>\<close>

lemma ranges_of_temp: "ranges_of t h ''temp'' = Some t"
  by (simp add: ranges_of_def)

lemma ranges_of_hum: "ranges_of t h ''hum'' = Some h"
  by (simp add: ranges_of_def)

lemma enumerate1_Nil: "enumerate1 i [] = []"
  by (simp add: enumerate1_def)

lemma enumerate1_Cons: "enumerate1 i (v # vs) = (i, v) # enumerate1 (Suc i) vs"
  by (simp add: enumerate1_def upt_rec)

lemma validate_list_issues_of:
  "validate_list repr kind lo hi i vs issues = issues @ issues_of repr kind lo hi i vs"
  by (induction vs arbitrary: i issues)
     (simp_all add: issues_of_def enumerate1_Nil enumerate1_Cons)

lemma validate_two_kinds:
  assumes "ranges k1 = Some (lo1, hi1)" and "ranges k2 = Some (lo2, hi2)"
  shows "validate repr [(k1, xs), (k2, ys)] ranges =
           Inr (issues_of repr k1 lo1 hi1 1 xs @ issues_of repr k2 lo2 hi2 1 ys)"
  using assms by (simp add: validate_def validate_list_issues_of)

lemma py_le_trans: "py_le a b \<Longrightarrow> py_le b c \<Longrightarrow> py_le a c"
  by (auto simp: py_le_def split: option.splits prod.splits)

lemma py_lt_not_le: "py_lt b a \<Longrightarrow> \<not> py_le a b"
  by (auto simp: py_le_def py_lt_def split: option.splits prod.splits)

lemma inverted_never_in_range: "py_lt hi lo \<Longrightarrow> \<not> in_range lo hi v"
  unfolding in_range_def using py_le_trans py_lt_not_le by blast

lemma not_le_iff_lt: "\<not> is_nan a \<Longrightarrow> \<not> is_nan b \<Longrightarrow> \<not> py_le a b \<longleftrightarrow> py_lt b a"
  by (auto simp: py_le_def py_lt_def is_nan_def split: option.splits prod.splits)

lemma outside_iff:
  "\<not> is_nan lo \<Longrightarrow> \<not> is_nan hi \<Longrightarrow> \<not> is_nan (PFloat v) \<Longrightarrow>
     \<not> in_range lo hi v \<longleftrightarrow> py_lt (PFloat v) lo \<or> py_lt hi (PFloat v)"
  by (auto simp: in_range_def not_le_iff_lt)

lemma issues_of_inverted:
  "py_lt hi lo \<Longrightarrow> issues_of repr kind lo hi (Suc 0) vs = every_issue repr kind lo hi vs"
  by (simp add: issues_of_def every_issue_def inverted_never_in_range)

text \<open>
  C4. When the range of a kind has \<open>min > max\<close>, \<open>validate\<close> does not raise and reports
  one issue for every value of that kind, whatever the values are: for an inverted
  temperature range every temperature is reported, for an inverted humidity range every
  humidity (the other kind is checked as usual).
\<close>

theorem validate_inverted_range:
  assumes "ranges ''temp'' = Some (tlo, thi)" and "ranges ''hum'' = Some (hlo, hhi)"
  shows "(py_lt thi tlo \<longrightarrow>
            validate repr (items vals) ranges =
              Inr (every_issue repr ''temp'' tlo thi (temp vals)
                     @ issues_of repr ''hum'' hlo hhi 1 (hum vals)))
       \<and> (py_lt hhi hlo \<longrightarrow>
            validate repr (items vals) ranges =
              Inr (issues_of repr ''temp'' tlo thi 1 (temp vals)
                     @ every_issue repr ''hum'' hlo hhi (hum vals)))"
  using assms by (simp add: items_def validate_two_kinds issues_of_inverted)

theorem validate_inverted_range_witness:
  "py_lt (PFloat (Finite True 20)) (PFloat (Finite False 80))
   \<and> py_lt (PFloat (Finite False 0)) (PFloat (Finite False 100))
   \<and> validate repr_table
       (items \<lparr>temp = [Finite False 25, Finite False 26], hum = [Finite False 45]\<rparr>)
       (ranges_of (PFloat (Finite False 80), PFloat (Finite True 20))
          (PFloat (Finite False 100), PFloat (Finite False 0)))
     = Inr [''temp1: 25.0 out of 80.0..-20.0'', ''temp2: 26.0 out of 80.0..-20.0'',
            ''hum1: 45.0 out of 100.0..0.0'']"
  using validate_inverted_range
    [where ranges = "ranges_of (PFloat (Finite False 80), PFloat (Finite True 20))
                       (PFloat (Finite False 100), PFloat (Finite False 0))"
       and repr = repr_table
       and vals = "\<lparr>temp = [Finite False 25, Finite False 26], hum = [Finite False 45]\<rparr>",
     OF ranges_of_temp ranges_of_hum]
  by (simp add: py_lt_def py_le_def in_range_def issues_of_def every_issue_def
      enumerate1_def upt_rec issue_def repr_table_def str_nat.simps digit_def)

end
